theory Spec2Isabelle
  imports Main "HOL-Library.Word" "HOL-Library.Sublist"
begin

unbundle bit_operations_syntax

section \<open>The image service of srinagar-gems-backend (src/services/imageService.js)\<close>

text \<open>
  The service is a class with four mutable fields (the B2 client, the bucket id, the
  bucket name and the initialized flag) and a fixed configuration. Its collaborators
  (the Backblaze B2 client, sharp, mime-types, the process environment, the random
  number generator and the clock) are not part of the repository: they are the fields
  of a record \<open>world\<close> of oracles, and every theorem below holds for every world.

  A JavaScript exception is a value of type \<open>js_error\<close>, and a method that may
  throw (or an async method whose promise may reject) returns \<open>js_error + 'a\<close>.
  \<open>uploadImage\<close>, the one method that starts promises it does not await at once,
  can also end with a rejection that has no handler: its result is \<open>failure + 'a\<close>.
  A method that reads or writes the fields takes the service and returns it updated.
  The calls made to the B2 client are recorded, in a ghost field \<open>calls\<close> of the
  service, so that "no call is issued" can be stated.
\<close>

subsection \<open>JavaScript values\<close>

text \<open>
  Only the \<open>message\<close> of an error is ever read by the service. An error of the B2 client
  is an HTTP-client error: it carries the status of the response when there was one
  (404 when the file does not exist) and none for a network failure.
\<close>

datatype js_error =
    Error (message: string)
  | TypeError (message: string)
  | HttpError (status: "nat option") (message: string)

text \<open>A Node \<open>Buffer\<close> is a sequence of bytes.\<close>

type_synonym buffer = "8 word list"

text \<open>\<open>x || d\<close> on a string that may be undefined: the empty string is falsy too.\<close>

definition js_or :: "string option \<Rightarrow> string \<Rightarrow> string" where
  "js_or x d = (case x of None \<Rightarrow> d | Some v \<Rightarrow> if v = [] then d else v)"

text \<open>\<open>!x\<close> on a string that may be undefined.\<close>

definition js_falsy :: "string option \<Rightarrow> bool" where
  "js_falsy x = (case x of None \<Rightarrow> True | Some v \<Rightarrow> v = [])"

text \<open>A value that may be null or undefined, inside a template literal.\<close>

definition js_template :: "string \<Rightarrow> string option \<Rightarrow> string" where
  "js_template absent x = (case x of None \<Rightarrow> absent | Some v \<Rightarrow> v)"

text \<open>\<open>xs.join(sep)\<close>.\<close>

fun join :: "string \<Rightarrow> string list \<Rightarrow> string" where
  "join sep [] = []"
| "join sep [x] = x"
| "join sep (x # y # ys) = x @ sep @ join sep (y # ys)"

text \<open>The decimal rendering of a natural number inside a template literal.\<close>

fun show_nat :: "nat \<Rightarrow> string" where
  "show_nat n =
     (if n < 10 then [''0123456789'' ! n]
      else show_nat (n div 10) @ [''0123456789'' ! (n mod 10)])"

declare show_nat.simps [simp del]

text \<open>\<open>v.toString(16)\<close> for \<open>0 \<le> v < 16\<close>.\<close>

definition hex_digit :: "4 word \<Rightarrow> char" where
  "hex_digit v = ''0123456789abcdef'' ! unat v"

subsection \<open>generateUUID\<close>

text \<open>
  \<open>'xxxxxxxx-xxxx-4xxx-yxxx-xxxxxxxxxxxx'.replace(/[xy]/g, c => ...)\<close>: every \<open>x\<close>
  and \<open>y\<close> of the template is replaced, from left to right, each with a fresh draw
  \<open>r = Math.random() * 16 | 0\<close>, a number from 0 to 15. The draws are the function
  \<open>rnd\<close>: \<open>rnd i\<close> is the draw of the \<open>i\<close>-th replacement.
\<close>

fun uuid_replace :: "(nat \<Rightarrow> 4 word) \<Rightarrow> nat \<Rightarrow> string \<Rightarrow> string" where
  "uuid_replace rnd i [] = []"
| "uuid_replace rnd i (c # cs) =
     (if c = CHR ''x'' \<or> c = CHR ''y'' then
        (let r = rnd i;
             v = (if c = CHR ''x'' then r else (r AND 3) OR 8)
         in hex_digit v # uuid_replace rnd (Suc i) cs)
      else c # uuid_replace rnd i cs)"

definition generateUUID :: "(nat \<Rightarrow> 4 word) \<Rightarrow> string" where
  "generateUUID rnd = uuid_replace rnd 0 ''xxxxxxxx-xxxx-4xxx-yxxx-xxxxxxxxxxxx''"

subsection \<open>Configuration (the constructor)\<close>

record size_config =
  width :: "nat option"
  height :: "nat option"
  quality :: nat

text \<open>\<open>this.imageSizes\<close>, in the insertion order that \<open>Object.entries\<close> follows.\<close>

definition imageSizes :: "(string \<times> size_config) list" where
  "imageSizes =
     [(''thumbnail'', \<lparr>width = Some 150, height = Some 150, quality = 80\<rparr>),
      (''medium'', \<lparr>width = Some 400, height = Some 300, quality = 85\<rparr>),
      (''large'', \<lparr>width = Some 800, height = Some 600, quality = 90\<rparr>),
      (''original'', \<lparr>width = None, height = None, quality = 95\<rparr>)]"

definition supportedFormats :: "string list" where
  "supportedFormats = [''image/jpeg'', ''image/png'', ''image/webp'']"

definition maxFileSize :: nat where
  "maxFileSize = 10 * 1024 * 1024"

subsection \<open>validateImage\<close>

text \<open>
  The three checks in the order of the source: size, MIME type, emptiness. The buffer
  is a \<open>Buffer\<close>, as the doc comment says; its length is all that is read.
\<close>

definition validateImage :: "buffer \<Rightarrow> string \<Rightarrow> js_error + unit" where
  "validateImage imageBuffer mimeType =
     (if length imageBuffer > maxFileSize then
        Inl (Error (''File size exceeds maximum limit of ''
                      @ show_nat (maxFileSize div (1024 * 1024)) @ ''MB''))
      else if mimeType \<notin> set supportedFormats then
        Inl (Error (''Unsupported image format. Supported formats: ''
                      @ join '', '' supportedFormats))
      else if length imageBuffer = 0 then
        Inl (Error ''Invalid image file: empty buffer'')
      else Inr ())"

subsection \<open>The collaborators\<close>

text \<open>The B2 client object: its two credentials, and the account id that a successful
  \<open>authorize\<close> leaves in it.\<close>

record b2client =
  applicationKeyId :: "string option"
  applicationKey :: "string option"
  accountId :: "string option"

text \<open>An entry of \<open>listResponse.data.files\<close>.\<close>

record b2file =
  fileId :: string
  fileName :: string

text \<open>The argument of \<open>b2.uploadFile\<close>.\<close>

record upload_request =
  uploadUrl :: string
  uploadAuthToken :: string
  up_fileName :: string
  up_data :: buffer
  up_mime :: string
  up_info :: "(string \<times> string) list"

text \<open>The response of \<open>b2.downloadFileByName\<close>: the body and the headers.\<close>

record download_response =
  dl_data :: buffer
  dl_headers :: "string \<Rightarrow> string option"

text \<open>The steps of a sharp pipeline, in the order they are chained.\<close>

datatype sharp_step =
    Resize nat nat
  | Jpeg nat bool
  | Png nat bool
  | Webp nat

text \<open>The calls to the B2 client, with their arguments.\<close>

datatype b2call =
    Authorize
  | GetUploadUrl "string option"
  | UploadFile upload_request
  | DownloadFileByName "string option" string
  | ListFileNames "string option" string nat
  | DeleteFileVersion string string
  | ListBuckets

text \<open>
  Everything outside the repository. An oracle of the B2 client answers a call from the
  calls made before it and the arguments of the call, so that the same request may
  succeed once and fail the next time. An answer is an error or a response of the shape
  the service reads: the upload URL with its token, the listed files, the body with the
  headers; for \<open>authorize\<close>, the account id that the client keeps.
\<close>

record world =
  env :: "string \<Rightarrow> string option"
  random :: "nat \<Rightarrow> 4 word"
  date_now :: string
  date_iso :: string
  mime_extension :: "string \<Rightarrow> string option"
  sharp_toBuffer :: "buffer \<Rightarrow> sharp_step list \<Rightarrow> js_error + buffer"
  b2_authorize :: "b2call list \<Rightarrow> string option \<Rightarrow> string option \<Rightarrow> js_error + string"
  b2_getUploadUrl :: "b2call list \<Rightarrow> string option \<Rightarrow> js_error + string \<times> string"
  b2_uploadFile :: "b2call list \<Rightarrow> upload_request \<Rightarrow> js_error + unit"
  b2_downloadFileByName ::
    "b2call list \<Rightarrow> string option \<Rightarrow> string \<Rightarrow> js_error + download_response"
  b2_listFileNames ::
    "b2call list \<Rightarrow> string option \<Rightarrow> string \<Rightarrow> nat \<Rightarrow> js_error + b2file list"
  b2_deleteFileVersion :: "b2call list \<Rightarrow> string \<Rightarrow> string \<Rightarrow> js_error + unit"
  b2_listBuckets :: "b2call list \<Rightarrow> js_error + unit"

subsection \<open>The service object\<close>

record service =
  b2 :: "b2client option"
  bucketId :: "string option"
  bucketName :: "string option"
  isInitialized :: bool
  calls :: "b2call list"

text \<open>The state the constructor leaves.\<close>

definition new_service :: service where
  "new_service =
     \<lparr>b2 = None, bucketId = None, bucketName = None, isInitialized = False, calls = []\<rparr>"

definition record_call :: "b2call \<Rightarrow> service \<Rightarrow> service" where
  "record_call c s = s\<lparr>calls := calls s @ [c]\<rparr>"

text \<open>
  Calling a method of \<open>this.b2\<close> while it is null throws a TypeError; the text of its
  message is the engine's.
\<close>

definition null_method_error :: "string \<Rightarrow> js_error" where
  "null_method_error m = TypeError (''Cannot read properties of null (reading '' @ [CHR 0x27] @ m @ [CHR 0x27] @ '')'')"

subsection \<open>initialize\<close>

definition requiredEnvVars :: "string list" where
  "requiredEnvVars =
     [''B2_APPLICATION_KEY_ID'', ''B2_APPLICATION_KEY'', ''B2_BUCKET_ID'', ''B2_BUCKET_NAME'']"

text \<open>The body of the \<open>try\<close> block.\<close>

definition initialize_body :: "world \<Rightarrow> service \<Rightarrow> service \<times> (js_error + unit)" where
  "initialize_body w s =
     (case find (\<lambda>envVar. js_falsy (env w envVar)) requiredEnvVars of
        Some envVar \<Rightarrow>
          (s, Inl (Error (''Missing required environment variable: '' @ envVar)))
      | None \<Rightarrow>
          (let client = \<lparr>applicationKeyId = env w ''B2_APPLICATION_KEY_ID'',
                         applicationKey = env w ''B2_APPLICATION_KEY'',
                         accountId = None\<rparr>;
               s1 = record_call Authorize (s\<lparr>b2 := Some client\<rparr>)
           in case b2_authorize w (calls s) (applicationKeyId client) (applicationKey client) of
                Inl e \<Rightarrow> (s1, Inl e)
              | Inr account \<Rightarrow>
                  (s1\<lparr>b2 := Some (client\<lparr>accountId := Some account\<rparr>),
                      bucketId := env w ''B2_BUCKET_ID'',
                      bucketName := env w ''B2_BUCKET_NAME'',
                      isInitialized := True\<rparr>, Inr ())))"

definition initialize :: "world \<Rightarrow> service \<Rightarrow> service \<times> (js_error + unit)" where
  "initialize w s =
     (if isInitialized s then (s, Inr ())
      else case initialize_body w s of
             (s', Inl error) \<Rightarrow>
               (s', Inl (Error (''Image service initialization failed: '' @ message error)))
           | (s', Inr u) \<Rightarrow> (s', Inr u))"

text \<open>\<open>if (!this.isInitialized) { await this.initialize(); }\<close>, the first statement of
  every public method.\<close>

definition ensure_initialized :: "world \<Rightarrow> service \<Rightarrow> service \<times> (js_error + unit)" where
  "ensure_initialized w s = (if \<not> isInitialized s then initialize w s else (s, Inr ()))"

subsection \<open>getFileExtension\<close>

definition getFileExtension :: "world \<Rightarrow> string \<Rightarrow> string" where
  "getFileExtension w mimeType = js_or (mime_extension w mimeType) ''jpg''"

subsection \<open>processImage\<close>

text \<open>\<open>config.width && config.height\<close>: both present and neither zero.\<close>

definition resize_steps :: "size_config \<Rightarrow> sharp_step list" where
  "resize_steps config =
     (case (width config, height config) of
        (Some wd, Some ht) \<Rightarrow> if wd \<noteq> 0 \<and> ht \<noteq> 0 then [Resize wd ht] else []
      | _ \<Rightarrow> [])"

definition encode_step :: "size_config \<Rightarrow> string \<Rightarrow> sharp_step" where
  "encode_step config mimeType =
     (if mimeType = ''image/jpeg'' then Jpeg (quality config) True
      else if mimeType = ''image/png'' then Png (quality config) True
      else if mimeType = ''image/webp'' then Webp (quality config)
      else Jpeg (quality config) True)"

definition processImage :: "world \<Rightarrow> buffer \<Rightarrow> size_config \<Rightarrow> string \<Rightarrow> js_error + buffer" where
  "processImage w imageBuffer config mimeType =
     (case sharp_toBuffer w imageBuffer (resize_steps config @ [encode_step config mimeType]) of
        Inl error \<Rightarrow> Inl (Error (''Image processing failed: '' @ message error))
      | Inr processed \<Rightarrow> Inr processed)"

subsection \<open>uploadToB2\<close>

definition publicBaseUrl :: "world \<Rightarrow> service \<Rightarrow> b2client \<Rightarrow> string" where
  "publicBaseUrl w s client =
     js_or (env w ''B2_BUCKET_URL'')
       (''https://f'' @ js_template ''undefined'' (accountId client)
          @ ''.backblazeb2.com/file/'' @ js_template ''null'' (bucketName s))"

text \<open>The body of the \<open>try\<close> block.\<close>

definition uploadToB2_body ::
  "world \<Rightarrow> service \<Rightarrow> buffer \<Rightarrow> string \<Rightarrow> string \<Rightarrow> service \<times> (js_error + string)" where
  "uploadToB2_body w s fileBuffer fname mimeType =
     (case b2 s of
        None \<Rightarrow> (s, Inl (null_method_error ''getUploadUrl''))
      | Some client \<Rightarrow>
          (let s1 = record_call (GetUploadUrl (bucketId s)) s
           in case b2_getUploadUrl w (calls s) (bucketId s) of
                Inl e \<Rightarrow> (s1, Inl e)
              | Inr (url, token) \<Rightarrow>
                  (let request = \<lparr>uploadUrl = url, uploadAuthToken = token,
                                  up_fileName = fname, up_data = fileBuffer,
                                  up_mime = mimeType,
                                  up_info = [(''src_last_modified_millis'', date_now w)]\<rparr>;
                       s2 = record_call (UploadFile request) s1
                   in case b2_uploadFile w (calls s1) request of
                        Inl e \<Rightarrow> (s2, Inl e)
                      | Inr _ \<Rightarrow> (s2, Inr (publicBaseUrl w s2 client @ ''/'' @ fname)))))"

definition uploadToB2 ::
  "world \<Rightarrow> service \<Rightarrow> buffer \<Rightarrow> string \<Rightarrow> string \<Rightarrow> service \<times> (js_error + string)" where
  "uploadToB2 w s fileBuffer fname mimeType =
     (case uploadToB2_body w s fileBuffer fname mimeType of
        (s', Inl error) \<Rightarrow> (s', Inl (Error (''B2 upload failed: '' @ message error)))
      | (s', Inr url) \<Rightarrow> (s', Inr url))"

subsection \<open>uploadImage\<close>

text \<open>The name under which a variant is stored at upload time.\<close>

definition uploadFileName :: "string \<Rightarrow> string \<Rightarrow> string \<Rightarrow> string" where
  "uploadFileName fid extension sizeName =
     (if sizeName = ''original'' then fid @ ''.'' @ extension
      else fid @ ''_'' @ sizeName @ ''.'' @ extension)"

text \<open>
  How a call of \<open>uploadImage\<close> ends when it returns no result. Either an error is
  thrown to its caller (the promise of the async method rejects), or a promise that
  nobody awaits yet rejects: the rejection has no handler, nothing in the repository
  installs one for the process, and Node (by default, since version 15) raises it as
  an uncaught exception, which ends the process.
\<close>

datatype failure =
    Thrown js_error
  | Unhandled js_error

text \<open>
  The \<open>for\<close> loop over \<open>Object.entries(this.imageSizes)\<close>. Each round awaits
  \<open>processImage\<close>, whose failure leaves the loop at once, and then starts
  \<open>uploadToB2\<close> without awaiting it: the promise is pushed to \<open>uploadPromises\<close> and
  gets its handler only from \<open>Promise.all\<close>, after the loop. The uploads are run
  here one after the other, in the order in which they are started, each settled before
  the \<open>processImage\<close> of the next round returns. So an upload that rejects in a round
  that is not the last rejects while the loop is still waiting, with no handler, and the
  process ends; the upload of the last round is the only one whose rejection reaches
  \<open>Promise.all\<close>. When the loop ends normally the result is the list of the outcomes
  of the uploads, each under the name of its variant.
\<close>

fun upload_sizes ::
  "world \<Rightarrow> service \<Rightarrow> buffer \<Rightarrow> string \<Rightarrow> string \<Rightarrow> string \<Rightarrow> (string \<times> size_config) list
     \<Rightarrow> service \<times> (failure + (string \<times> (js_error + string)) list)" where
  "upload_sizes w s imageBuffer mimeType fid extension [] = (s, Inr [])"
| "upload_sizes w s imageBuffer mimeType fid extension ((sizeName, config) # rest) =
     (case processImage w imageBuffer config mimeType of
        Inl e \<Rightarrow> (s, Inl (Thrown e))
      | Inr processedBuffer \<Rightarrow>
          (case uploadToB2 w s processedBuffer (uploadFileName fid extension sizeName) mimeType of
             (s1, Inl e) \<Rightarrow>
               (if rest = [] then (s1, Inr [(sizeName, Inl e)]) else (s1, Inl (Unhandled e)))
           | (s1, Inr url) \<Rightarrow>
               (case upload_sizes w s1 imageBuffer mimeType fid extension rest of
                  (s2, Inl f) \<Rightarrow> (s2, Inl f)
                | (s2, Inr outcomes) \<Rightarrow> (s2, Inr ((sizeName, Inr url) # outcomes)))))"

text \<open>
  \<open>await Promise.all(uploadPromises)\<close>, each promise followed by
  \<open>imageUrls[sizeName] = url\<close>: the object \<open>imageUrls\<close> when every upload
  succeeded, and the rejection of the one that did not otherwise.
\<close>

fun promise_all ::
  "(string \<times> (js_error + string)) list \<Rightarrow> js_error + (string \<Rightarrow> string option)" where
  "promise_all [] = Inr Map.empty"
| "promise_all ((sizeName, Inl e) # rest) = Inl e"
| "promise_all ((sizeName, Inr url) # rest) =
     (case promise_all rest of
        Inl e \<Rightarrow> Inl e
      | Inr imageUrls \<Rightarrow> Inr (imageUrls(sizeName \<mapsto> url)))"

text \<open>The \<open>data\<close> of the object that \<open>uploadImage\<close> returns; its \<open>success\<close> is
  always \<open>true\<close>.\<close>

record upload_result =
  res_id :: string
  res_urls :: "string \<Rightarrow> string option"
  res_originalName :: string
  res_mimeType :: string
  res_uploadedAt :: string

text \<open>The body of the \<open>try\<close> block.\<close>

definition uploadImage_body ::
  "world \<Rightarrow> service \<Rightarrow> buffer \<Rightarrow> string \<Rightarrow> string \<Rightarrow> service \<times> (failure + upload_result)" where
  "uploadImage_body w s imageBuffer originalName mimeType =
     (case validateImage imageBuffer mimeType of
        Inl e \<Rightarrow> (s, Inl (Thrown e))
      | Inr _ \<Rightarrow>
          (let fid = generateUUID (random w);
               extension = getFileExtension w mimeType
           in case upload_sizes w s imageBuffer mimeType fid extension imageSizes of
                (s', Inl f) \<Rightarrow> (s', Inl f)
              | (s', Inr outcomes) \<Rightarrow>
                  (case promise_all outcomes of
                     Inl e \<Rightarrow> (s', Inl (Thrown e))
                   | Inr imageUrls \<Rightarrow>
                       (s', Inr \<lparr>res_id = fid, res_urls = imageUrls,
                                 res_originalName = originalName, res_mimeType = mimeType,
                                 res_uploadedAt = date_iso w\<rparr>))))"

text \<open>The \<open>catch\<close> block sees what is thrown inside the \<open>try\<close> block, and
  nothing of a rejection without a handler.\<close>

definition uploadImage ::
  "world \<Rightarrow> service \<Rightarrow> buffer \<Rightarrow> string \<Rightarrow> string \<Rightarrow> service \<times> (failure + upload_result)" where
  "uploadImage w s imageBuffer originalName mimeType =
     (case ensure_initialized w s of
        (s1, Inl e) \<Rightarrow> (s1, Inl (Thrown e))
      | (s1, Inr _) \<Rightarrow>
          (case uploadImage_body w s1 imageBuffer originalName mimeType of
             (s2, Inl (Thrown error)) \<Rightarrow>
               (s2, Inl (Thrown (Error (''Image upload failed: '' @ message error))))
           | (s2, Inl (Unhandled e)) \<Rightarrow> (s2, Inl (Unhandled e))
           | (s2, Inr result) \<Rightarrow> (s2, Inr result)))"

subsection \<open>getImage\<close>

record image_data =
  body :: buffer
  contentType :: string
  contentLength :: "string option"
  etag :: "string option"

text \<open>The body of the \<open>try\<close> block.\<close>

definition getImage_body :: "world \<Rightarrow> service \<Rightarrow> string \<Rightarrow> service \<times> (js_error + image_data)" where
  "getImage_body w s filename =
     (case b2 s of
        None \<Rightarrow> (s, Inl (null_method_error ''downloadFileByName''))
      | Some client \<Rightarrow>
          (let s1 = record_call (DownloadFileByName (bucketName s) filename) s
           in case b2_downloadFileByName w (calls s) (bucketName s) filename of
                Inl e \<Rightarrow> (s1, Inl e)
              | Inr downloadResponse \<Rightarrow>
                  (s1, Inr \<lparr>body = dl_data downloadResponse,
                            contentType =
                              js_or (dl_headers downloadResponse ''content-type'') ''image/jpeg'',
                            contentLength = dl_headers downloadResponse ''content-length'',
                            etag = dl_headers downloadResponse ''etag''\<rparr>)))"

text \<open>The result is \<open>None\<close> where the source returns \<open>null\<close>.\<close>

definition getImage :: "world \<Rightarrow> service \<Rightarrow> string \<Rightarrow> service \<times> (js_error + image_data option)" where
  "getImage w s filename =
     (case ensure_initialized w s of
        (s1, Inl e) \<Rightarrow> (s1, Inl e)
      | (s1, Inr _) \<Rightarrow>
          (case getImage_body w s1 filename of
             (s2, Inl error) \<Rightarrow> (s2, Inr None)
           | (s2, Inr imageData) \<Rightarrow> (s2, Inr (Some imageData))))"

subsection \<open>deleteFromB2 and deleteImage\<close>

text \<open>The body of the \<open>try\<close> block of \<open>deleteFromB2\<close>.\<close>

definition deleteFromB2_body :: "world \<Rightarrow> service \<Rightarrow> string \<Rightarrow> service \<times> (js_error + unit)" where
  "deleteFromB2_body w s fname =
     (case b2 s of
        None \<Rightarrow> (s, Inl (null_method_error ''listFileNames''))
      | Some client \<Rightarrow>
          (let s1 = record_call (ListFileNames (bucketId s) fname 1) s
           in case b2_listFileNames w (calls s) (bucketId s) fname 1 of
                Inl e \<Rightarrow> (s1, Inl e)
              | Inr files \<Rightarrow>
                  (case find (\<lambda>f. fileName f = fname) files of
                     None \<Rightarrow> (s1, Inr ())
                   | Some file \<Rightarrow>
                       (let s2 = record_call (DeleteFileVersion (fileId file) fname) s1
                        in case b2_deleteFileVersion w (calls s1) (fileId file) fname of
                             Inl e \<Rightarrow> (s2, Inl e)
                           | Inr _ \<Rightarrow> (s2, Inr ())))))"

text \<open>The \<open>catch\<close> block logs the error and returns normally.\<close>

definition deleteFromB2 :: "world \<Rightarrow> service \<Rightarrow> string \<Rightarrow> service \<times> (js_error + unit)" where
  "deleteFromB2 w s fname =
     (case deleteFromB2_body w s fname of
        (s', Inl error) \<Rightarrow> (s', Inr ())
      | (s', Inr u) \<Rightarrow> (s', Inr u))"

text \<open>The name under which \<open>deleteImage\<close> looks for a variant.\<close>

definition deleteFileName :: "string \<Rightarrow> string \<Rightarrow> string" where
  "deleteFileName fid sizeName =
     (if sizeName = ''original'' then fid @ ''.jpg'' else fid @ ''_'' @ sizeName @ ''.jpg'')"

text \<open>
  The \<open>for\<close> loop over \<open>Object.keys(this.imageSizes)\<close> with
  \<open>await Promise.allSettled(deletePromises)\<close>: every deletion is started, and the
  outcomes are collected, whatever they are. The deletions are run here one after the
  other; the result is the list of the names with the outcomes.
\<close>

fun delete_sizes ::
  "world \<Rightarrow> service \<Rightarrow> string \<Rightarrow> string list
     \<Rightarrow> service \<times> (string \<times> (js_error + unit)) list" where
  "delete_sizes w s fid [] = (s, [])"
| "delete_sizes w s fid (sizeName # rest) =
     (case deleteFromB2 w s (deleteFileName fid sizeName) of
        (s1, outcome) \<Rightarrow>
          (case delete_sizes w s1 fid rest of
             (s2, outcomes) \<Rightarrow> (s2, (deleteFileName fid sizeName, outcome) # outcomes)))"

text \<open>The body of the \<open>try\<close> block of \<open>deleteImage\<close>.\<close>

definition deleteImage_body :: "world \<Rightarrow> service \<Rightarrow> string \<Rightarrow> service \<times> (js_error + bool)" where
  "deleteImage_body w s fid =
     (case delete_sizes w s fid (map fst imageSizes) of (s', outcomes) \<Rightarrow> (s', Inr True))"

definition deleteImage :: "world \<Rightarrow> service \<Rightarrow> string \<Rightarrow> service \<times> (js_error + bool)" where
  "deleteImage w s fid =
     (case ensure_initialized w s of
        (s1, Inl e) \<Rightarrow> (s1, Inl e)
      | (s1, Inr _) \<Rightarrow>
          (case deleteImage_body w s1 fid of
             (s2, Inl error) \<Rightarrow> (s2, Inr False)
           | (s2, Inr ok) \<Rightarrow> (s2, Inr ok)))"

subsection \<open>healthCheck\<close>

datatype health =
    Healthy (h_initialized: bool) (h_bucketName: "string option")
      (h_supportedFormats: "string list") (h_maxFileSize: string) (h_imageSizes: "string list")
  | Unhealthy (h_error: string) (h_initialized: bool)

definition health_status :: "health \<Rightarrow> string" where
  "health_status h = (case h of Healthy _ _ _ _ _ \<Rightarrow> ''healthy'' | Unhealthy _ _ \<Rightarrow> ''unhealthy'')"

text \<open>The body of the \<open>try\<close> block.\<close>

definition healthCheck_body :: "world \<Rightarrow> service \<Rightarrow> service \<times> (js_error + health)" where
  "healthCheck_body w s =
     (case ensure_initialized w s of
        (s1, Inl e) \<Rightarrow> (s1, Inl e)
      | (s1, Inr _) \<Rightarrow>
          (case b2 s1 of
             None \<Rightarrow> (s1, Inl (null_method_error ''listBuckets''))
           | Some client \<Rightarrow>
               (let s2 = record_call ListBuckets s1
                in case b2_listBuckets w (calls s1) of
                     Inl e \<Rightarrow> (s2, Inl e)
                   | Inr _ \<Rightarrow>
                       (s2, Inr (Healthy (isInitialized s2) (bucketName s2) supportedFormats
                                   (show_nat (maxFileSize div (1024 * 1024)) @ ''MB'')
                                   (map fst imageSizes))))))"

definition healthCheck :: "world \<Rightarrow> service \<Rightarrow> service \<times> (js_error + health)" where
  "healthCheck w s =
     (case healthCheck_body w s of
        (s', Inl error) \<Rightarrow> (s', Inr (Unhealthy (message error) (isInitialized s')))
      | (s', Inr h) \<Rightarrow> (s', Inr h))"

section \<open>Vocabulary of the properties\<close>

text \<open>The calls recorded between the state \<open>s\<close> and the later state \<open>s'\<close>.\<close>

definition calls_since :: "service \<Rightarrow> service \<Rightarrow> b2call list" where
  "calls_since s s' = drop (length (calls s)) (calls s')"

text \<open>The file names asked for by the \<open>listFileNames\<close> calls of a list of calls.\<close>

fun listed_names :: "b2call list \<Rightarrow> string list" where
  "listed_names [] = []"
| "listed_names (ListFileNames bucket fname n # cs) = fname # listed_names cs"
| "listed_names (c # cs) = listed_names cs"

fun is_delete_call :: "b2call \<Rightarrow> bool" where
  "is_delete_call (DeleteFileVersion fid fname) = True"
| "is_delete_call c = False"

text \<open>The store reports that the file does not exist: a response with status 404.\<close>

definition is_not_found :: "js_error \<Rightarrow> bool" where
  "is_not_found e = (case e of HttpError st msg \<Rightarrow> st = Some 404 | _ \<Rightarrow> False)"

text \<open>
  The constructor leaves no client and the flag unset, and \<open>initialize\<close> sets the flag
  only after it has stored a client: an initialized service has a client.
\<close>

definition service_ok :: "service \<Rightarrow> bool" where
  "service_ok s = (if isInitialized s then b2 s \<noteq> None else True)"

section \<open>Example worlds\<close>

text \<open>The environment and the mocked B2 client of the repository's tests of the
  service, where every call succeeds and the listing is empty; the extensions are those
  the tests of \<open>getFileExtension\<close> expect from mime-types.\<close>

definition test_env :: "string \<Rightarrow> string option" where
  "test_env name =
     (if name = ''B2_APPLICATION_KEY_ID'' then Some ''test-key-id''
      else if name = ''B2_APPLICATION_KEY'' then Some ''test-key''
      else if name = ''B2_BUCKET_ID'' then Some ''test-bucket-id''
      else if name = ''B2_BUCKET_NAME'' then Some ''test-bucket''
      else if name = ''B2_BUCKET_URL'' then Some ''https://test-bucket.com''
      else None)"

definition test_mime_extension :: "string \<Rightarrow> string option" where
  "test_mime_extension m =
     (if m = ''image/jpeg'' then Some ''jpeg''
      else if m = ''image/png'' then Some ''png''
      else if m = ''image/webp'' then Some ''webp''
      else None)"

definition test_world :: world where
  "test_world =
     \<lparr>env = test_env,
      random = (\<lambda>i. 0),
      date_now = ''1700000000000'',
      date_iso = ''2023-11-14T22:13:20.000Z'',
      mime_extension = test_mime_extension,
      sharp_toBuffer = (\<lambda>buf steps. Inr buf),
      b2_authorize = (\<lambda>h keyId key. Inr ''mock-account''),
      b2_getUploadUrl = (\<lambda>h bucket. Inr (''https://mock-upload-url.com'', ''mock-auth-token'')),
      b2_uploadFile = (\<lambda>h request. Inr ()),
      b2_downloadFileByName = (\<lambda>h bucket fname. Inl (HttpError (Some 404) ''Request failed with status code 404'')),
      b2_listFileNames = (\<lambda>h bucket fname n. Inr []),
      b2_deleteFileVersion = (\<lambda>h fid fname. Inr ()),
      b2_listBuckets = (\<lambda>h. Inr ())\<rparr>"

text \<open>The service after a successful \<open>initialize\<close> in that world.\<close>

definition test_service :: service where
  "test_service =
     \<lparr>b2 = Some \<lparr>applicationKeyId = Some ''test-key-id'', applicationKey = Some ''test-key'',
                  accountId = Some ''mock-account''\<rparr>,
      bucketId = Some ''test-bucket-id'', bucketName = Some ''test-bucket'',
      isInitialized = True, calls = [Authorize]\<rparr>"

text \<open>The network is down: no request gets a response.\<close>

definition offline_error :: js_error where
  "offline_error = HttpError None ''connect ECONNREFUSED''"

definition offline_world :: world where
  "offline_world =
     test_world
       \<lparr>b2_authorize := (\<lambda>h keyId key. Inl offline_error),
        b2_getUploadUrl := (\<lambda>h bucket. Inl offline_error),
        b2_uploadFile := (\<lambda>h request. Inl offline_error),
        b2_downloadFileByName := (\<lambda>h bucket fname. Inl offline_error),
        b2_listFileNames := (\<lambda>h bucket fname n. Inl offline_error),
        b2_deleteFileVersion := (\<lambda>h fid fname. Inl offline_error),
        b2_listBuckets := (\<lambda>h. Inl offline_error)\<rparr>"

text \<open>The listing answers every request with the one file that follows the name asked
  for, as a listing that starts at a name does when that name is not stored.\<close>

definition adjacent_world :: world where
  "adjacent_world =
     test_world
       \<lparr>b2_listFileNames :=
          (\<lambda>h bucket fname n. Inr [\<lparr>fileId = ''mock-file-id'', fileName = fname @ ''.bak''\<rparr>])\<rparr>"

text \<open>The listing answers every request with a file of exactly the name asked for.\<close>

definition stored_world :: world where
  "stored_world =
     test_world
       \<lparr>b2_listFileNames :=
          (\<lambda>h bucket fname n. Inr [\<lparr>fileId = ''mock-file-id'', fileName = fname\<rparr>])\<rparr>"




section \<open>Facts about the configuration\<close>

lemma show_nat_10: "show_nat 10 = ''10''"
  by (simp add: show_nat.simps)

lemma maxFileSize_MB: "show_nat (maxFileSize div (1024 * 1024)) = ''10''"
  by (simp add: maxFileSize_def show_nat_10)

lemma supportedFormats_joined:
  "join '', '' supportedFormats = ''image/jpeg, image/png, image/webp''"
  by (simp add: supportedFormats_def)

lemma validateImage_cases:
  "validateImage imageBuffer mimeType =
     (if length imageBuffer > maxFileSize then
        Inl (Error ''File size exceeds maximum limit of 10MB'')
      else if mimeType \<notin> set supportedFormats then
        Inl (Error ''Unsupported image format. Supported formats: image/jpeg, image/png, image/webp'')
      else if length imageBuffer = 0 then
        Inl (Error ''Invalid image file: empty buffer'')
      else Inr ())"
  unfolding validateImage_def maxFileSize_MB supportedFormats_joined by simp

section \<open>The call log\<close>

lemma calls_since_append: "calls s' = calls s @ new \<Longrightarrow> calls_since s s' = new"
  by (simp add: calls_since_def)

lemma listed_names_append: "listed_names (xs @ ys) = listed_names xs @ listed_names ys"
  by (induction xs rule: listed_names.induct) simp_all

lemma find_None_iff_no_match:
  "(find (\<lambda>f. fileName f = fname) files = None) = (\<forall>f\<in>set files. fileName f \<noteq> fname)"
  by (auto simp: find_None_iff)

lemma find_Some_match:
  "find (\<lambda>f. fileName f = fname) files = Some found
     \<Longrightarrow> found \<in> set files \<and> fileName found = fname"
  by (auto simp: find_Some_iff)

section \<open>validateImage\<close>

text \<open>
  C2. The claim: on a 0-byte buffer \<open>validateImage\<close> fails with the empty-buffer error
  for every declared MIME type, also one outside the supported set. The source checks
  the MIME type before the emptiness, so for \<open>image/gif\<close> the 0-byte buffer is rejected
  with the unsupported-format error, not with the empty-buffer error.
\<close>

theorem validateImage_empty_gif_unsupported:
  "validateImage [] ''image/gif'' =
     Inl (Error ''Unsupported image format. Supported formats: image/jpeg, image/png, image/webp'')
   \<and> validateImage [] ''image/gif'' \<noteq> Inl (Error ''Invalid image file: empty buffer'')"
  by (simp add: validateImage_cases maxFileSize_def supportedFormats_def)

text \<open>
  C2, as the code has it: on a 0-byte buffer \<open>validateImage\<close> fails with the
  empty-buffer error when the declared MIME type is one of the supported formats, and
  with the unsupported-format error when it is not.
\<close>

theorem validateImage_empty_buffer:
  "validateImage [] mimeType =
     (if mimeType \<in> set supportedFormats then Inl (Error ''Invalid image file: empty buffer'')
      else Inl (Error ''Unsupported image format. Supported formats: image/jpeg, image/png, image/webp''))"
  by (simp add: validateImage_cases maxFileSize_def)

theorem validateImage_empty_buffer_witness:
  "validateImage [] ''image/png'' = Inl (Error ''Invalid image file: empty buffer'')"
  using validateImage_empty_buffer [of "''image/png''"] by (simp add: supportedFormats_def)

text \<open>
  C9. The outcome of \<open>validateImage\<close> depends only on the length of the buffer and on
  the MIME type: two buffers of the same length, declared with the same MIME type, are
  both accepted or both rejected with the same error.
\<close>

theorem validateImage_length_only:
  "length buffer1 = length buffer2
     \<Longrightarrow> validateImage buffer1 mimeType = validateImage buffer2 mimeType"
  by (simp add: validateImage_def)

theorem validateImage_length_only_witness:
  "length [1, 2, 3 :: 8 word] = length [7, 8, 9 :: 8 word]
   \<and> validateImage [1, 2, 3] ''image/png'' = validateImage [7, 8, 9] ''image/png''
   \<and> validateImage [1, 2, 3] ''image/png'' = Inr ()"
  using validateImage_length_only [of "[1, 2, 3]" "[7, 8, 9]" "''image/png''"]
  by (simp add: validateImage_cases maxFileSize_def supportedFormats_def)

section \<open>initialize\<close>

lemma initialize_calls:
  "\<exists>new. calls (fst (initialize w s)) = calls s @ new \<and> set new \<subseteq> {Authorize}"
  by (simp add: initialize_def initialize_body_def Let_def record_call_def
           split: option.splits sum.splits)

lemma ensure_initialized_calls:
  "\<exists>new. calls (fst (ensure_initialized w s)) = calls s @ new \<and> set new \<subseteq> {Authorize}"
  using initialize_calls [of w s] by (simp add: ensure_initialized_def)

lemma initialize_ok_client:
  "snd (initialize w s) = Inr () \<Longrightarrow> service_ok s \<Longrightarrow> b2 (fst (initialize w s)) \<noteq> None"
  by (auto simp: initialize_def initialize_body_def Let_def record_call_def service_ok_def
           split: option.splits sum.splits if_splits)

lemma ensure_initialized_ok_client:
  "snd (ensure_initialized w s) = Inr () \<Longrightarrow> service_ok s
     \<Longrightarrow> b2 (fst (ensure_initialized w s)) \<noteq> None"
  using initialize_ok_client [of w s]
  by (auto simp: ensure_initialized_def service_ok_def split: if_splits)

text \<open>
  C8. \<open>initialize\<close> is idempotent. On a service whose initialized flag is set it
  returns at once: the service is unchanged (client, bucket id, bucket name, flag) and
  no call is recorded, whatever the world would answer. In particular a second
  \<open>initialize\<close> after a successful one changes nothing, also in a world \<open>w'\<close> that
  differs from the world \<open>w\<close> of the first.
\<close>

theorem initialize_idempotent:
  "(isInitialized s \<longrightarrow> initialize w s = (s, Inr ()))
   \<and> (initialize w s = (s', Inr ()) \<longrightarrow> initialize w' s' = (s', Inr ()))"
  by (auto simp: initialize_def initialize_body_def Let_def
           split: option.splits sum.splits if_splits prod.splits)

theorem initialize_idempotent_witness:
  "isInitialized test_service
   \<and> initialize test_world new_service = (test_service, Inr ())
   \<and> initialize offline_world test_service = (test_service, Inr ())"
  using initialize_idempotent [of new_service test_world test_service offline_world]
  by (simp add: initialize_def initialize_body_def Let_def test_world_def test_env_def
        new_service_def test_service_def requiredEnvVars_def js_falsy_def record_call_def)

section \<open>deleteFromB2\<close>

lemma deleteFromB2_returns: "snd (deleteFromB2 w s fname) = Inr ()"
  by (simp add: deleteFromB2_def deleteFromB2_body_def Let_def
           split: option.splits sum.splits prod.splits)

lemma deleteFromB2_state:
  "fst (deleteFromB2 w s fname) =
     s\<lparr>calls := calls s @
       (case b2 s of
          None \<Rightarrow> []
        | Some client \<Rightarrow>
            ListFileNames (bucketId s) fname 1 #
            (case b2_listFileNames w (calls s) (bucketId s) fname 1 of
               Inl e \<Rightarrow> []
             | Inr files \<Rightarrow>
                 (case find (\<lambda>f. fileName f = fname) files of
                    None \<Rightarrow> []
                  | Some found \<Rightarrow> [DeleteFileVersion (fileId found) fname])))\<rparr>"
  by (simp add: deleteFromB2_def deleteFromB2_body_def Let_def record_call_def
           split: option.splits sum.splits)

lemma deleteFromB2_frame:
  "\<exists>new. fst (deleteFromB2 w s fname) = s\<lparr>calls := calls s @ new\<rparr>"
  using deleteFromB2_state by blast

lemma deleteFromB2_new_calls:
  "calls_since s (fst (deleteFromB2 w s fname)) =
     (case b2 s of
        None \<Rightarrow> []
      | Some client \<Rightarrow>
          ListFileNames (bucketId s) fname 1 #
          (case b2_listFileNames w (calls s) (bucketId s) fname 1 of
             Inl e \<Rightarrow> []
           | Inr files \<Rightarrow>
               (case find (\<lambda>f. fileName f = fname) files of
                  None \<Rightarrow> []
                | Some found \<Rightarrow> [DeleteFileVersion (fileId found) fname])))"
  by (subst deleteFromB2_state) (simp add: calls_since_def)

lemma deleteFromB2_deletes_iff:
  "(\<exists>c\<in>set (calls_since s (fst (deleteFromB2 w s fname))). is_delete_call c) =
     (\<exists>client files. b2 s = Some client
        \<and> b2_listFileNames w (calls s) (bucketId s) fname 1 = Inr files
        \<and> (\<exists>f\<in>set files. fileName f = fname))"
proof (cases "b2 s")
  case None
  then show ?thesis by (simp add: deleteFromB2_new_calls)
next
  case (Some client)
  show ?thesis
  proof (cases "b2_listFileNames w (calls s) (bucketId s) fname 1")
    case (Inl e)
    with Some show ?thesis by (simp add: deleteFromB2_new_calls)
  next
    case (Inr files)
    show ?thesis
    proof (cases "find (\<lambda>f. fileName f = fname) files")
      case None
      then have "\<forall>f\<in>set files. fileName f \<noteq> fname"
        by (simp only: find_None_iff_no_match)
      moreover have "calls_since s (fst (deleteFromB2 w s fname))
                       = [ListFileNames (bucketId s) fname 1]"
        using \<open>b2 s = Some client\<close> Inr None by (simp add: deleteFromB2_new_calls)
      ultimately show ?thesis using Inr by simp
    next
      case (Some found)
      with find_Some_match [OF Some] \<open>b2 s = Some client\<close> Inr show ?thesis
        by (auto simp: deleteFromB2_new_calls)
    qed
  qed
qed

text \<open>
  C10. \<open>deleteFromB2\<close> issues a \<open>deleteFileVersion\<close> call exactly when the listing
  succeeded and contains an entry whose \<open>fileName\<close> equals the target name. Whatever
  the listing holds, the only calls it makes are the listing of the target name and a
  deletion under the target name, it returns normally, and it leaves the fields of the
  service as they were. So with no exact match in the listing, also when the listing
  holds only names that follow the target, nothing is deleted.
\<close>

theorem deleteFromB2_exact_match:
  "(\<exists>c\<in>set (calls_since s (fst (deleteFromB2 w s fname))). is_delete_call c) =
     (\<exists>client files. b2 s = Some client
        \<and> b2_listFileNames w (calls s) (bucketId s) fname 1 = Inr files
        \<and> (\<exists>f\<in>set files. fileName f = fname))
   \<and> (\<forall>c\<in>set (calls_since s (fst (deleteFromB2 w s fname))).
         c = ListFileNames (bucketId s) fname 1 \<or> (\<exists>f. c = DeleteFileVersion f fname))
   \<and> snd (deleteFromB2 w s fname) = Inr ()
   \<and> (\<exists>new. fst (deleteFromB2 w s fname) = s\<lparr>calls := calls s @ new\<rparr>)"
proof (intro conjI)
  show "(\<exists>c\<in>set (calls_since s (fst (deleteFromB2 w s fname))). is_delete_call c) =
     (\<exists>client files. b2 s = Some client
        \<and> b2_listFileNames w (calls s) (bucketId s) fname 1 = Inr files
        \<and> (\<exists>f\<in>set files. fileName f = fname))"
    by (rule deleteFromB2_deletes_iff)
  show "\<forall>c\<in>set (calls_since s (fst (deleteFromB2 w s fname))).
         c = ListFileNames (bucketId s) fname 1 \<or> (\<exists>f. c = DeleteFileVersion f fname)"
    by (auto simp: deleteFromB2_new_calls split: option.splits sum.splits)
  show "snd (deleteFromB2 w s fname) = Inr ()" by (rule deleteFromB2_returns)
  show "\<exists>new. fst (deleteFromB2 w s fname) = s\<lparr>calls := calls s @ new\<rparr>"
    by (rule deleteFromB2_frame)
qed

theorem deleteFromB2_exact_match_witness:
  "calls_since test_service (fst (deleteFromB2 adjacent_world test_service ''abc.jpg''))
     = [ListFileNames (Some ''test-bucket-id'') ''abc.jpg'' 1]
   \<and> calls_since test_service (fst (deleteFromB2 stored_world test_service ''abc.jpg''))
     = [ListFileNames (Some ''test-bucket-id'') ''abc.jpg'' 1,
        DeleteFileVersion ''mock-file-id'' ''abc.jpg'']"
  using deleteFromB2_exact_match [of test_service adjacent_world "''abc.jpg''"]
  by (simp add: deleteFromB2_new_calls adjacent_world_def stored_world_def test_world_def
        test_service_def)

section \<open>deleteImage\<close>


lemma listed_names_authorize: "set cs \<subseteq> {Authorize} \<Longrightarrow> listed_names cs = []"
  by (induction cs) auto

lemma deleteFromB2_extends:
  "fst (deleteFromB2 w s fname) = s\<lparr>calls := calls s @ calls_since s (fst (deleteFromB2 w s fname))\<rparr>"
  unfolding deleteFromB2_new_calls by (rule deleteFromB2_state)

lemma deleteFromB2_lists_target:
  "b2 s \<noteq> None \<Longrightarrow> listed_names (calls_since s (fst (deleteFromB2 w s fname))) = [fname]"
  by (auto simp: deleteFromB2_new_calls split: option.splits sum.splits)

lemma deleteFromB2_no_match:
  assumes "\<forall>h bucket files. b2_listFileNames w h bucket fname 1 = Inr files
             \<longrightarrow> (\<forall>f\<in>set files. fileName f \<noteq> fname)"
  shows "\<forall>c\<in>set (calls_since s (fst (deleteFromB2 w s fname))). \<not> is_delete_call c"
proof -
  have "\<not> (\<exists>client files. b2 s = Some client
        \<and> b2_listFileNames w (calls s) (bucketId s) fname 1 = Inr files
        \<and> (\<exists>f\<in>set files. fileName f = fname))"
    using assms by blast
  then show ?thesis
    unfolding deleteFromB2_deletes_iff [symmetric] by blast
qed

lemma delete_sizes_extends:
  "\<exists>new. fst (delete_sizes w s fid names) = s\<lparr>calls := calls s @ new\<rparr>
     \<and> (b2 s \<noteq> None \<longrightarrow> listed_names new = map (deleteFileName fid) names)
     \<and> ((\<forall>sizeName\<in>set names. \<forall>h bucket files.
            b2_listFileNames w h bucket (deleteFileName fid sizeName) 1 = Inr files
              \<longrightarrow> (\<forall>f\<in>set files. fileName f \<noteq> deleteFileName fid sizeName))
          \<longrightarrow> (\<forall>c\<in>set new. \<not> is_delete_call c))"
proof (induction names arbitrary: s)
  case Nil
  show ?case by (intro exI [of _ "[]"]) simp
next
  case (Cons sizeName rest)
  let ?target = "deleteFileName fid sizeName"
  let ?s1 = "fst (deleteFromB2 w s ?target)"
  let ?n1 = "calls_since s ?s1"
  have s1: "?s1 = s\<lparr>calls := calls s @ ?n1\<rparr>" by (rule deleteFromB2_extends)
  from Cons.IH [of ?s1] obtain n2 where
    n2: "fst (delete_sizes w ?s1 fid rest) = ?s1\<lparr>calls := calls ?s1 @ n2\<rparr>"
    and names2: "b2 ?s1 \<noteq> None \<longrightarrow> listed_names n2 = map (deleteFileName fid) rest"
    and nodel2: "(\<forall>sizeName\<in>set rest. \<forall>h bucket files.
            b2_listFileNames w h bucket (deleteFileName fid sizeName) 1 = Inr files
              \<longrightarrow> (\<forall>f\<in>set files. fileName f \<noteq> deleteFileName fid sizeName))
          \<longrightarrow> (\<forall>c\<in>set n2. \<not> is_delete_call c)"
    by blast
  have b2_same: "b2 ?s1 = b2 s" by (subst s1) simp
  have calls1: "calls ?s1 = calls s @ ?n1" by (subst s1) simp
  have step: "fst (delete_sizes w s fid (sizeName # rest)) = fst (delete_sizes w ?s1 fid rest)"
    by (simp split: prod.splits)
  have "fst (delete_sizes w s fid (sizeName # rest)) = s\<lparr>calls := calls s @ (?n1 @ n2)\<rparr>"
    unfolding step n2 calls1 by (subst s1) simp
  moreover have "b2 s \<noteq> None \<longrightarrow>
      listed_names (?n1 @ n2) = map (deleteFileName fid) (sizeName # rest)"
    using names2 b2_same deleteFromB2_lists_target [of s w ?target]
    by (simp add: listed_names_append)
  moreover have "(\<forall>sizeName\<in>set (sizeName # rest). \<forall>h bucket files.
            b2_listFileNames w h bucket (deleteFileName fid sizeName) 1 = Inr files
              \<longrightarrow> (\<forall>f\<in>set files. fileName f \<noteq> deleteFileName fid sizeName))
          \<longrightarrow> (\<forall>c\<in>set (?n1 @ n2). \<not> is_delete_call c)"
  proof
    assume a: "\<forall>sizeName\<in>set (sizeName # rest). \<forall>h bucket files.
            b2_listFileNames w h bucket (deleteFileName fid sizeName) 1 = Inr files
              \<longrightarrow> (\<forall>f\<in>set files. fileName f \<noteq> deleteFileName fid sizeName)"
    then have "\<forall>h bucket files. b2_listFileNames w h bucket ?target 1 = Inr files
             \<longrightarrow> (\<forall>f\<in>set files. fileName f \<noteq> ?target)"
      by simp
    then have "\<forall>c\<in>set ?n1. \<not> is_delete_call c" by (rule deleteFromB2_no_match)
    moreover from a nodel2 have "\<forall>c\<in>set n2. \<not> is_delete_call c" by simp
    ultimately show "\<forall>c\<in>set (?n1 @ n2). \<not> is_delete_call c" by auto
  qed
  ultimately show ?case by blast
qed

lemma deleteImage_after_initialize:
  "snd (ensure_initialized w s) = Inr ()
     \<Longrightarrow> deleteImage w s fid =
           (fst (delete_sizes w (fst (ensure_initialized w s)) fid (map fst imageSizes)), Inr True)"
  by (cases "ensure_initialized w s")
     (auto simp: deleteImage_def deleteImage_body_def split: prod.splits sum.splits)

lemma deleteImage_extends:
  assumes ok: "snd (ensure_initialized w s) = Inr ()"
  shows "\<exists>new0 new. set new0 \<subseteq> {Authorize}
     \<and> calls_since s (fst (deleteImage w s fid)) = new0 @ new
     \<and> (b2 (fst (ensure_initialized w s)) \<noteq> None
          \<longrightarrow> listed_names new = map (deleteFileName fid) (map fst imageSizes))
     \<and> ((\<forall>sizeName\<in>set (map fst imageSizes). \<forall>h bucket files.
            b2_listFileNames w h bucket (deleteFileName fid sizeName) 1 = Inr files
              \<longrightarrow> (\<forall>f\<in>set files. fileName f \<noteq> deleteFileName fid sizeName))
          \<longrightarrow> (\<forall>c\<in>set new. \<not> is_delete_call c))"
proof -
  let ?s1 = "fst (ensure_initialized w s)"
  obtain new0 where new0: "calls ?s1 = calls s @ new0" "set new0 \<subseteq> {Authorize}"
    using ensure_initialized_calls [of w s] by blast
  obtain new where
    new: "fst (delete_sizes w ?s1 fid (map fst imageSizes)) = ?s1\<lparr>calls := calls ?s1 @ new\<rparr>"
    and names: "b2 ?s1 \<noteq> None \<longrightarrow> listed_names new = map (deleteFileName fid) (map fst imageSizes)"
    and nodel: "(\<forall>sizeName\<in>set (map fst imageSizes). \<forall>h bucket files.
            b2_listFileNames w h bucket (deleteFileName fid sizeName) 1 = Inr files
              \<longrightarrow> (\<forall>f\<in>set files. fileName f \<noteq> deleteFileName fid sizeName))
          \<longrightarrow> (\<forall>c\<in>set new. \<not> is_delete_call c)"
    using delete_sizes_extends [of w ?s1 fid "map fst imageSizes"] by blast
  have "calls (fst (deleteImage w s fid)) = calls s @ (new0 @ new)"
    unfolding deleteImage_after_initialize [OF ok] fst_conv new by (simp add: new0)
  then have "calls_since s (fst (deleteImage w s fid)) = new0 @ new"
    by (rule calls_since_append)
  with new0 names nodel show ?thesis by blast
qed

lemma size_names: "map fst imageSizes = [''thumbnail'', ''medium'', ''large'', ''original'']"
  by (simp add: imageSizes_def)

lemma deleteFileName_sizes:
  "map (deleteFileName fid) (map fst imageSizes) =
     [fid @ ''_thumbnail.jpg'', fid @ ''_medium.jpg'', fid @ ''_large.jpg'', fid @ ''.jpg'']"
  by (simp add: size_names deleteFileName_def)

lemma upload_names_not_deleted:
  "extension \<noteq> ''jpg'' \<Longrightarrow>
     \<forall>sizeName\<in>set (map fst imageSizes).
       uploadFileName fid extension sizeName
         \<notin> set [fid @ ''_thumbnail.jpg'', fid @ ''_medium.jpg'', fid @ ''_large.jpg'', fid @ ''.jpg'']"
  by (simp add: size_names uploadFileName_def)

text \<open>
  C1. On a service that has a client whenever it is initialized, and whose
  initialization succeeds (or was done before), \<open>deleteImage\<close> lists exactly four
  file names, built from the asset identifier with the extension \<open>jpg\<close>:
  \<open>{id}_thumbnail.jpg\<close>, \<open>{id}_medium.jpg\<close>, \<open>{id}_large.jpg\<close> and \<open>{id}.jpg\<close>.
  The MIME type of the upload plays no part in them. So when the extension that
  \<open>getFileExtension\<close> derives from the MIME type at upload time is not \<open>jpg\<close>,
  no name under which \<open>uploadImage\<close> stores a variant is among the names that
  \<open>deleteImage\<close> looks for.
\<close>

theorem deleteImage_targets_jpg:
  assumes "service_ok s" and "snd (ensure_initialized w s) = Inr ()"
  shows "listed_names (calls_since s (fst (deleteImage w s fid))) =
           [fid @ ''_thumbnail.jpg'', fid @ ''_medium.jpg'', fid @ ''_large.jpg'', fid @ ''.jpg'']
         \<and> (getFileExtension w mimeType \<noteq> ''jpg'' \<longrightarrow>
              (\<forall>sizeName\<in>set (map fst imageSizes).
                 uploadFileName fid (getFileExtension w mimeType) sizeName
                   \<notin> set (listed_names (calls_since s (fst (deleteImage w s fid))))))"
proof -
  have client: "b2 (fst (ensure_initialized w s)) \<noteq> None"
    using assms by (simp add: ensure_initialized_ok_client)
  obtain new0 new where "set new0 \<subseteq> {Authorize}"
    and "calls_since s (fst (deleteImage w s fid)) = new0 @ new"
    and "listed_names new = map (deleteFileName fid) (map fst imageSizes)"
    using deleteImage_extends [OF assms(2), of fid] client by blast
  then have names: "listed_names (calls_since s (fst (deleteImage w s fid)))
                      = map (deleteFileName fid) (map fst imageSizes)"
    by (simp add: listed_names_append listed_names_authorize)
  show ?thesis
    unfolding names deleteFileName_sizes
    using upload_names_not_deleted [of "getFileExtension w mimeType" fid] by blast
qed

text \<open>
  C6. Once initialization has succeeded (or was done before), so that the four
  attempts run, \<open>deleteImage\<close> returns \<open>true\<close> in every world: whatever the
  listings and the deletions answer, failures included. And when no listing of a target
  name holds an entry with exactly that name, no \<open>deleteFileVersion\<close> call is made
  at all.
\<close>

theorem deleteImage_best_effort:
  assumes "snd (ensure_initialized w s) = Inr ()"
  shows "snd (deleteImage w s fid) = Inr True
         \<and> ((\<forall>sizeName\<in>set (map fst imageSizes). \<forall>h bucket files.
                b2_listFileNames w h bucket (deleteFileName fid sizeName) 1 = Inr files
                  \<longrightarrow> (\<forall>f\<in>set files. fileName f \<noteq> deleteFileName fid sizeName))
              \<longrightarrow> (\<forall>c\<in>set (calls_since s (fst (deleteImage w s fid))). \<not> is_delete_call c))"
proof -
  obtain new0 new where "set new0 \<subseteq> {Authorize}"
    and "calls_since s (fst (deleteImage w s fid)) = new0 @ new"
    and "(\<forall>sizeName\<in>set (map fst imageSizes). \<forall>h bucket files.
            b2_listFileNames w h bucket (deleteFileName fid sizeName) 1 = Inr files
              \<longrightarrow> (\<forall>f\<in>set files. fileName f \<noteq> deleteFileName fid sizeName))
          \<longrightarrow> (\<forall>c\<in>set new. \<not> is_delete_call c)"
    using deleteImage_extends [OF assms, of fid] by blast
  then show ?thesis
    using deleteImage_after_initialize [OF assms, of fid] by auto
qed


lemma test_initialize:
  "ensure_initialized test_world new_service = (test_service, Inr ())"
  by (simp add: ensure_initialized_def initialize_def initialize_body_def Let_def test_world_def
        test_env_def new_service_def test_service_def requiredEnvVars_def js_falsy_def
        record_call_def)

lemma test_service_initialized:
  "ensure_initialized w test_service = (test_service, Inr ())"
  by (simp add: ensure_initialized_def test_service_def)

theorem deleteImage_targets_jpg_witness:
  "service_ok new_service
   \<and> snd (ensure_initialized test_world new_service) = Inr ()
   \<and> getFileExtension test_world ''image/png'' = ''png''
   \<and> listed_names (calls_since new_service (fst (deleteImage test_world new_service ''a1b2''))) =
       [''a1b2_thumbnail.jpg'', ''a1b2_medium.jpg'', ''a1b2_large.jpg'', ''a1b2.jpg'']
   \<and> uploadFileName ''a1b2'' ''png'' ''original'' = ''a1b2.png''
   \<and> ''a1b2.png''
       \<notin> set (listed_names (calls_since new_service (fst (deleteImage test_world new_service ''a1b2''))))"
proof -
  have ok: "service_ok new_service" by (simp add: service_ok_def new_service_def)
  have init: "snd (ensure_initialized test_world new_service) = Inr ()"
    by (simp add: test_initialize)
  have ext: "getFileExtension test_world ''image/png'' = ''png''"
    by (simp add: getFileExtension_def test_world_def test_mime_extension_def js_or_def)
  have name: "uploadFileName ''a1b2'' ''png'' ''original'' = ''a1b2.png''"
    by (simp add: uploadFileName_def)
  show ?thesis
    using deleteImage_targets_jpg [OF ok init, of "''a1b2''" "''image/png''"] ok init ext name
    by (simp add: size_names)
qed

theorem deleteImage_best_effort_witness:
  "snd (ensure_initialized offline_world test_service) = Inr ()
   \<and> snd (deleteImage offline_world test_service ''a1b2'') = Inr True
   \<and> snd (deleteImage adjacent_world test_service ''a1b2'') = Inr True
   \<and> \<not> (\<exists>c\<in>set (calls_since test_service
                     (fst (deleteImage adjacent_world test_service ''a1b2''))).
           is_delete_call c)"
proof -
  have init: "snd (ensure_initialized w test_service) = Inr ()" for w
    by (simp add: test_service_initialized)
  have listing: "b2_listFileNames adjacent_world h bucket fname n
                   = Inr [\<lparr>fileId = ''mock-file-id'', fileName = fname @ ''.bak''\<rparr>]"
    for h bucket fname n
    by (simp add: adjacent_world_def)
  show ?thesis
    using deleteImage_best_effort [OF init, of offline_world "''a1b2''"]
      deleteImage_best_effort [OF init, of adjacent_world "''a1b2''"] init
    by (simp add: listing)
qed

section \<open>getImage\<close>


lemma getImage_throws_iff:
  "(snd (getImage w s filename) = Inl e) = (snd (ensure_initialized w s) = Inl e)"
  by (cases "ensure_initialized w s")
     (auto simp: getImage_def split: prod.splits sum.splits)

lemma getImage_after_initialize:
  assumes "snd (ensure_initialized w s) = Inr ()" and "b2 (fst (ensure_initialized w s)) = Some client"
  shows "snd (getImage w s filename) =
     (case b2_downloadFileByName w (calls (fst (ensure_initialized w s)))
             (bucketName (fst (ensure_initialized w s))) filename of
        Inl e \<Rightarrow> Inr None
      | Inr downloadResponse \<Rightarrow>
          Inr (Some \<lparr>body = dl_data downloadResponse,
                     contentType = js_or (dl_headers downloadResponse ''content-type'') ''image/jpeg'',
                     contentLength = dl_headers downloadResponse ''content-length'',
                     etag = dl_headers downloadResponse ''etag''\<rparr>))"
  using assms
  by (cases "ensure_initialized w s")
     (auto simp: getImage_def getImage_body_def Let_def split: prod.splits sum.splits)

text \<open>
  C4. The claim: \<open>getImage\<close> returns null exactly when the store reports that the
  file does not exist, and any other failure of the store is thrown to the caller. In
  the source the \<open>catch\<close> block of \<open>getImage\<close> returns null for every error of
  the download. With the network down the download fails with an error that is not a
  not-found response, and \<open>getImage\<close> returns null.
\<close>

theorem getImage_network_failure_null:
  "b2_downloadFileByName offline_world (calls test_service) (bucketName test_service) ''a1b2.jpeg''
     = Inl offline_error
   \<and> \<not> is_not_found offline_error
   \<and> snd (getImage offline_world test_service ''a1b2.jpeg'') = Inr None"
  by (simp add: getImage_def getImage_body_def Let_def ensure_initialized_def offline_world_def
        test_world_def test_service_def offline_error_def is_not_found_def record_call_def)

text \<open>
  C4, as the code has it. On a service that has a client whenever it is initialized:
  \<open>getImage\<close> returns null exactly when initialization succeeded (or was done
  before) and the download failed, with whatever error; and \<open>getImage\<close> throws
  exactly when the initialization fails, with the error of \<open>initialize\<close>.
\<close>

theorem getImage_null_iff_download_fails:
  assumes "service_ok s"
  shows "(snd (getImage w s filename) = Inr None) =
           (snd (ensure_initialized w s) = Inr ()
            \<and> (\<exists>e. b2_downloadFileByName w (calls (fst (ensure_initialized w s)))
                      (bucketName (fst (ensure_initialized w s))) filename = Inl e))
         \<and> (\<forall>e. (snd (getImage w s filename) = Inl e) = (snd (ensure_initialized w s) = Inl e))"
proof (intro conjI allI)
  show "(snd (getImage w s filename) = Inr None) =
           (snd (ensure_initialized w s) = Inr ()
            \<and> (\<exists>e. b2_downloadFileByName w (calls (fst (ensure_initialized w s)))
                      (bucketName (fst (ensure_initialized w s))) filename = Inl e))"
  proof (cases "snd (ensure_initialized w s)")
    case (Inl e)
    then have "snd (getImage w s filename) = Inl e" by (simp add: getImage_throws_iff)
    with Inl show ?thesis by simp
  next
    case (Inr u)
    then have ok: "snd (ensure_initialized w s) = Inr ()" by simp
    then obtain client where "b2 (fst (ensure_initialized w s)) = Some client"
      using ensure_initialized_ok_client [OF ok assms] by blast
    from getImage_after_initialize [OF ok this, of filename] ok show ?thesis
      by (auto split: sum.splits)
  qed
next
  fix e show "(snd (getImage w s filename) = Inl e) = (snd (ensure_initialized w s) = Inl e)"
    by (rule getImage_throws_iff)
qed

theorem getImage_null_iff_download_fails_witness:
  "service_ok test_service
   \<and> snd (getImage test_world test_service ''a1b2.jpeg'') = Inr None
   \<and> snd (getImage offline_world test_service ''a1b2.jpeg'') = Inr None
   \<and> snd (getImage offline_world new_service ''a1b2.jpeg'')
       = Inl (Error ''Image service initialization failed: connect ECONNREFUSED'')"
proof -
  have ok: "service_ok test_service" by (simp add: service_ok_def test_service_def)
  have init: "ensure_initialized w test_service = (test_service, Inr ())" for w
    by (simp add: ensure_initialized_def test_service_def)
  have "snd (getImage offline_world new_service ''a1b2.jpeg'')
       = Inl (Error ''Image service initialization failed: connect ECONNREFUSED'')"
    by (simp add: getImage_def ensure_initialized_def initialize_def initialize_body_def Let_def
        offline_world_def test_world_def test_env_def new_service_def offline_error_def
        requiredEnvVars_def js_falsy_def record_call_def)
  then show ?thesis
    using getImage_null_iff_download_fails [OF ok, of test_world "''a1b2.jpeg''"] getImage_null_iff_download_fails [OF ok, of offline_world "''a1b2.jpeg''"] ok
    by (simp add: init offline_world_def test_world_def)
qed

section \<open>healthCheck\<close>

lemma healthCheck_cases:
  "healthCheck w s =
     (case ensure_initialized w s of
        (s1, Inl e) \<Rightarrow> (s1, Inr (Unhealthy (message e) (isInitialized s1)))
      | (s1, Inr u) \<Rightarrow>
          (case b2 s1 of
             None \<Rightarrow> (s1, Inr (Unhealthy (message (null_method_error ''listBuckets'')) (isInitialized s1)))
           | Some client \<Rightarrow>
               (case b2_listBuckets w (calls s1) of
                  Inl e \<Rightarrow> (record_call ListBuckets s1, Inr (Unhealthy (message e) (isInitialized s1)))
                | Inr u \<Rightarrow>
                    (record_call ListBuckets s1,
                     Inr (Healthy (isInitialized s1) (bucketName s1)
                            [''image/jpeg'', ''image/png'', ''image/webp''] ''10MB''
                            [''thumbnail'', ''medium'', ''large'', ''original'']))))) "
  unfolding healthCheck_def healthCheck_body_def maxFileSize_MB
  by (simp add: Let_def record_call_def supportedFormats_def imageSizes_def
           split: prod.splits sum.splits option.splits)

lemma ensure_initialized_ok_flag:
  "snd (ensure_initialized w s) = Inr () \<Longrightarrow> isInitialized (fst (ensure_initialized w s))"
  by (auto simp: ensure_initialized_def initialize_def initialize_body_def Let_def
           split: if_splits prod.splits sum.splits option.splits)

lemma ensure_initialized_failed_flag:
  "snd (ensure_initialized w s) = Inl e \<Longrightarrow> \<not> isInitialized (fst (ensure_initialized w s))"
  by (auto simp: ensure_initialized_def initialize_def initialize_body_def Let_def record_call_def
           split: if_splits prod.splits sum.splits option.splits)

text \<open>
  C7. \<open>healthCheck\<close> never throws: in every world and from every state of the
  service it returns a result, whose \<open>initialized\<close> field is the flag of the service
  at that moment. When initialization succeeds (or was done before) and the
  \<open>listBuckets\<close> probe succeeds, the result is healthy, with the flag (set), the bucket
  name, the three supported formats, the maximum size \<open>10MB\<close> and the four variant
  names. When initialization fails the result is unhealthy with the message of the
  initialization error and the flag (unset); when the probe fails it is unhealthy with
  the message of the probe's error and the flag (set).
\<close>

theorem healthCheck_never_throws:
  "(\<exists>h. snd (healthCheck w s) = Inr h
         \<and> h_initialized h = isInitialized (fst (healthCheck w s))
         \<and> (health_status h = ''healthy'' \<or> health_status h = ''unhealthy''))
   \<and> (snd (ensure_initialized w s) = Inr ()
        \<and> b2 (fst (ensure_initialized w s)) \<noteq> None
        \<and> b2_listBuckets w (calls (fst (ensure_initialized w s))) = Inr ()
      \<longrightarrow> snd (healthCheck w s) =
            Inr (Healthy True (bucketName (fst (healthCheck w s)))
                   [''image/jpeg'', ''image/png'', ''image/webp''] ''10MB''
                   [''thumbnail'', ''medium'', ''large'', ''original'']))
   \<and> (\<forall>e. snd (ensure_initialized w s) = Inl e
        \<longrightarrow> snd (healthCheck w s) = Inr (Unhealthy (message e) False))
   \<and> (\<forall>e. snd (ensure_initialized w s) = Inr ()
           \<and> b2 (fst (ensure_initialized w s)) \<noteq> None
           \<and> b2_listBuckets w (calls (fst (ensure_initialized w s))) = Inl e
        \<longrightarrow> snd (healthCheck w s) = Inr (Unhealthy (message e) True))"
proof (cases "ensure_initialized w s")
  case (Pair s1 r)
  show ?thesis
  proof (cases r)
    case (Inl e)
    with Pair ensure_initialized_failed_flag [of w s e] show ?thesis
      by (simp add: healthCheck_cases health_status_def)
  next
    case (Inr u)
    with Pair ensure_initialized_ok_flag [of w s] have flag: "isInitialized s1" by simp
    show ?thesis
    proof (cases "b2 s1")
      case None
      with Pair Inr flag show ?thesis by (simp add: healthCheck_cases health_status_def)
    next
      case (Some client)
      with Pair Inr flag show ?thesis
        by (cases "b2_listBuckets w (calls s1)")
           (simp_all add: healthCheck_cases health_status_def record_call_def)
    qed
  qed
qed

theorem healthCheck_never_throws_witness:
  "snd (healthCheck test_world new_service) =
     Inr (Healthy True (Some ''test-bucket'') [''image/jpeg'', ''image/png'', ''image/webp'']
            ''10MB'' [''thumbnail'', ''medium'', ''large'', ''original''])
   \<and> snd (healthCheck offline_world test_service) = Inr (Unhealthy ''connect ECONNREFUSED'' True)
   \<and> snd (healthCheck offline_world new_service) =
       Inr (Unhealthy ''Image service initialization failed: connect ECONNREFUSED'' False)"
proof -
  have init1: "ensure_initialized test_world new_service = (test_service, Inr ())"
    by (rule test_initialize)
  have init2: "ensure_initialized offline_world test_service = (test_service, Inr ())"
    by (rule test_service_initialized)
  have init3: "snd (ensure_initialized offline_world new_service) =
      Inl (Error ''Image service initialization failed: connect ECONNREFUSED'')"
    by (simp add: ensure_initialized_def initialize_def initialize_body_def Let_def
        offline_world_def test_world_def test_env_def new_service_def offline_error_def
        requiredEnvVars_def js_falsy_def record_call_def)
  have bucket: "bucketName (fst (healthCheck test_world new_service)) = Some ''test-bucket''"
    unfolding healthCheck_cases init1
    by (simp add: test_service_def test_world_def record_call_def)
  have probe1: "b2_listBuckets test_world h = Inr ()" for h
    by (simp add: test_world_def)
  have probe2: "b2_listBuckets offline_world h = Inl offline_error" for h
    by (simp add: offline_world_def)
  have client: "b2 test_service \<noteq> None" by (simp add: test_service_def)
  show ?thesis
    using healthCheck_never_throws [of test_world new_service]
      healthCheck_never_throws [of offline_world test_service]
      healthCheck_never_throws [of offline_world new_service]
    by (simp add: init1 init2 init3 probe1 probe2 client bucket offline_error_def)
qed


section \<open>uploadImage\<close>


lemma publicBaseUrl_calls [simp]:
  "publicBaseUrl w (s\<lparr>calls := cs\<rparr>) client = publicBaseUrl w s client"
  by (simp add: publicBaseUrl_def)

lemma uploadToB2_frame:
  "\<exists>new. fst (uploadToB2 w s fileBuffer fname mimeType) = s\<lparr>calls := calls s @ new\<rparr>"
proof (cases "b2 s")
  case None
  then have "fst (uploadToB2 w s fileBuffer fname mimeType) = s\<lparr>calls := calls s @ []\<rparr>"
    by (simp add: uploadToB2_def uploadToB2_body_def)
  then show ?thesis by blast
next
  case (Some client)
  show ?thesis
  proof (cases "b2_getUploadUrl w (calls s) (bucketId s)")
    case (Inl e)
    with Some have "fst (uploadToB2 w s fileBuffer fname mimeType)
        = s\<lparr>calls := calls s @ [GetUploadUrl (bucketId s)]\<rparr>"
      by (simp add: uploadToB2_def uploadToB2_body_def Let_def record_call_def)
    then show ?thesis by blast
  next
    case (Inr slot)
    obtain url token where slot: "slot = (url, token)" by (cases slot)
    let ?request = "\<lparr>uploadUrl = url, uploadAuthToken = token, up_fileName = fname,
                     up_data = fileBuffer, up_mime = mimeType,
                     up_info = [(''src_last_modified_millis'', date_now w)]\<rparr>"
    from Some Inr slot have "fst (uploadToB2 w s fileBuffer fname mimeType)
        = s\<lparr>calls := calls s @ [GetUploadUrl (bucketId s), UploadFile ?request]\<rparr>"
      by (simp add: uploadToB2_def uploadToB2_body_def Let_def record_call_def
               split: sum.splits)
    then show ?thesis by blast
  qed
qed

lemma uploadToB2_success:
  "snd (uploadToB2 w s fileBuffer fname mimeType) = Inr url
     \<Longrightarrow> \<exists>client. b2 s = Some client \<and> url = publicBaseUrl w s client @ ''/'' @ fname"
  by (auto simp: uploadToB2_def uploadToB2_body_def Let_def record_call_def
           split: option.splits sum.splits prod.splits)

lemma upload_sizes_outcomes:
  "upload_sizes w s imageBuffer mimeType fid extension sizes = (s', Inr outcomes)
     \<Longrightarrow> map fst outcomes = map fst sizes
         \<and> (\<exists>new. s' = s\<lparr>calls := calls s @ new\<rparr>)
         \<and> (\<forall>sizeName url. (sizeName, Inr url) \<in> set outcomes
               \<longrightarrow> (\<exists>client. b2 s = Some client
                      \<and> url = publicBaseUrl w s client @ ''/'' @ uploadFileName fid extension sizeName))"
proof (induction sizes arbitrary: s s' outcomes)
  case Nil
  then show ?case by (intro conjI exI [of _ "[]"]) auto
next
  case (Cons size1 rest)
  obtain sizeName config where size1: "size1 = (sizeName, config)" by (cases size1)
  let ?target = "uploadFileName fid extension sizeName"
  from Cons.prems size1 obtain processed where
    processed: "processImage w imageBuffer config mimeType = Inr processed"
    by (auto split: sum.splits)
  let ?up = "uploadToB2 w s processed ?target mimeType"
  from Cons.prems size1 processed obtain rest_outcomes where
    rest: "upload_sizes w (fst ?up) imageBuffer mimeType fid extension rest = (s', Inr rest_outcomes)"
    and outcomes: "outcomes = (sizeName, snd ?up) # rest_outcomes"
    by (cases ?up) (auto split: sum.splits prod.splits if_splits)
  obtain new1 where new1: "fst ?up = s\<lparr>calls := calls s @ new1\<rparr>"
    using uploadToB2_frame by blast
  from Cons.IH [OF rest] obtain new2 where
    names: "map fst rest_outcomes = map fst rest"
    and new2: "s' = (fst ?up)\<lparr>calls := calls (fst ?up) @ new2\<rparr>"
    and urls: "\<forall>sizeName url. (sizeName, Inr url) \<in> set rest_outcomes
               \<longrightarrow> (\<exists>client. b2 (fst ?up) = Some client
                      \<and> url = publicBaseUrl w (fst ?up) client @ ''/'' @ uploadFileName fid extension sizeName)"
    by blast
  have "map fst outcomes = map fst (size1 # rest)"
    by (simp add: outcomes names size1)
  moreover have "s' = s\<lparr>calls := calls s @ (new1 @ new2)\<rparr>"
    by (subst new2, subst (1 2) new1) simp
  moreover have "\<forall>n url. (n, Inr url) \<in> set outcomes
               \<longrightarrow> (\<exists>client. b2 s = Some client
                      \<and> url = publicBaseUrl w s client @ ''/'' @ uploadFileName fid extension n)"
  proof (intro allI impI)
    fix n url assume "(n, Inr url) \<in> set outcomes"
    then consider "n = sizeName" "snd ?up = Inr url" | "(n, Inr url) \<in> set rest_outcomes"
      by (auto simp: outcomes)
    then show "\<exists>client. b2 s = Some client
                      \<and> url = publicBaseUrl w s client @ ''/'' @ uploadFileName fid extension n"
    proof cases
      case 1
      then show ?thesis using uploadToB2_success [of w s processed ?target mimeType url] by simp
    next
      case 2
      with urls obtain client where "b2 (fst ?up) = Some client"
        and "url = publicBaseUrl w (fst ?up) client @ ''/'' @ uploadFileName fid extension n"
        by blast
      then show ?thesis by (subst (asm) (1 2) new1) simp
    qed
  qed
  ultimately show ?case by blast
qed

lemma promise_all_Inr:
  "promise_all outcomes = Inr imageUrls
     \<Longrightarrow> dom imageUrls = set (map fst outcomes)
         \<and> (\<forall>sizeName url. imageUrls sizeName = Some url \<longrightarrow> (sizeName, Inr url) \<in> set outcomes)"
proof (induction outcomes arbitrary: imageUrls rule: promise_all.induct)
  case 1
  then show ?case by auto
next
  case (2 sizeName e rest)
  then show ?case by simp
next
  case (3 sizeName url rest)
  from "3.prems" obtain restUrls where
    rest: "promise_all rest = Inr restUrls" and urls: "imageUrls = restUrls(sizeName \<mapsto> url)"
    by (auto split: sum.splits)
  from "3.IH" [OF rest] have
    dom_rest: "dom restUrls = set (map fst rest)"
    and in_rest: "\<forall>n u. restUrls n = Some u \<longrightarrow> (n, Inr u) \<in> set rest"
    by blast+
  have "dom imageUrls = insert sizeName (dom restUrls)" by (simp add: urls)
  then have "dom imageUrls = set (map fst ((sizeName, Inr url) # rest))"
    by (simp add: dom_rest)
  moreover have "\<forall>n u. imageUrls n = Some u \<longrightarrow> (n, Inr u) \<in> set ((sizeName, Inr url) # rest)"
    using in_rest by (auto simp: urls)
  ultimately show ?case by blast
qed











lemma uploadImage_success:
  assumes "uploadImage w s imageBuffer originalName mimeType = (s', Inr result)"
  shows "\<exists>s1 outcomes imageUrls.
           ensure_initialized w s = (s1, Inr ())
         \<and> validateImage imageBuffer mimeType = Inr ()
         \<and> upload_sizes w s1 imageBuffer mimeType (generateUUID (random w))
               (getFileExtension w mimeType) imageSizes = (s', Inr outcomes)
         \<and> promise_all outcomes = Inr imageUrls
         \<and> result = \<lparr>res_id = generateUUID (random w), res_urls = imageUrls,
                      res_originalName = originalName, res_mimeType = mimeType,
                      res_uploadedAt = date_iso w\<rparr>"
  using assms
  by (auto simp: uploadImage_def uploadImage_body_def Let_def
           split: prod.splits sum.splits failure.splits)

lemma validateImage_ok:
  "validateImage imageBuffer mimeType = Inr ()
     \<Longrightarrow> 0 < length imageBuffer \<and> length imageBuffer \<le> maxFileSize
         \<and> mimeType \<in> set supportedFormats"
  by (auto simp: validateImage_def split: if_splits)

text \<open>
  C5. A successful \<open>uploadImage\<close> returns the freshly generated identifier and a
  \<open>urls\<close> object with exactly the four configured variants as keys: \<open>thumbnail\<close>,
  \<open>medium\<close>, \<open>large\<close> and \<open>original\<close>. The URL of a variant is the public base
  URL, a slash, and the stored file name: \<open>{id}.{ext}\<close> for \<open>original\<close> and
  \<open>{id}_{variant}.{ext}\<close> for the others, with the extension that
  \<open>getFileExtension\<close> derives from the MIME type. So every URL contains the
  identifier and ends in the stored file name. An upload succeeds only for a buffer
  that is not empty, not over the size limit, and of a supported MIME type.
\<close>

theorem uploadImage_urls:
  assumes "uploadImage w s imageBuffer originalName mimeType = (s', Inr result)"
  shows "res_id result = generateUUID (random w)
       \<and> dom (res_urls result) = {''thumbnail'', ''medium'', ''large'', ''original''}
       \<and> card (dom (res_urls result)) = 4
       \<and> (\<exists>client. b2 s' = Some client
            \<and> (\<forall>sizeName\<in>dom (res_urls result).
                 res_urls result sizeName =
                   Some (publicBaseUrl w s' client @ ''/'' @
                         (if sizeName = ''original''
                          then res_id result @ ''.'' @ getFileExtension w mimeType
                          else res_id result @ ''_'' @ sizeName @ ''.''
                                 @ getFileExtension w mimeType))))
       \<and> (\<forall>sizeName url. res_urls result sizeName = Some url
            \<longrightarrow> sublist (res_id result) url
                \<and> suffix (if sizeName = ''original''
                           then res_id result @ ''.'' @ getFileExtension w mimeType
                           else res_id result @ ''_'' @ sizeName @ ''.''
                                  @ getFileExtension w mimeType) url)
       \<and> 0 < length imageBuffer \<and> length imageBuffer \<le> maxFileSize
       \<and> mimeType \<in> set supportedFormats
       \<and> res_originalName result = originalName \<and> res_mimeType result = mimeType"
proof -
  let ?fid = "generateUUID (random w)"
  let ?ext = "getFileExtension w mimeType"
  from uploadImage_success [OF assms] obtain s1 outcomes imageUrls where
    valid: "validateImage imageBuffer mimeType = Inr ()"
    and loop: "upload_sizes w s1 imageBuffer mimeType ?fid ?ext imageSizes = (s', Inr outcomes)"
    and joined: "promise_all outcomes = Inr imageUrls"
    and result: "result = \<lparr>res_id = ?fid, res_urls = imageUrls,
                      res_originalName = originalName, res_mimeType = mimeType,
                      res_uploadedAt = date_iso w\<rparr>"
    by blast
  from upload_sizes_outcomes [OF loop] obtain new where
    names: "map fst outcomes = map fst imageSizes"
    and frame: "s' = s1\<lparr>calls := calls s1 @ new\<rparr>"
    and urls: "\<forall>sizeName url. (sizeName, Inr url) \<in> set outcomes
               \<longrightarrow> (\<exists>client. b2 s1 = Some client
                      \<and> url = publicBaseUrl w s1 client @ ''/'' @ uploadFileName ?fid ?ext sizeName)"
    by blast
  from promise_all_Inr [OF joined] have
    dom_urls: "dom imageUrls = set (map fst outcomes)"
    and in_outcomes: "\<forall>sizeName url. imageUrls sizeName = Some url
                        \<longrightarrow> (sizeName, Inr url) \<in> set outcomes"
    by blast+
  have dom4: "dom imageUrls = {''thumbnail'', ''medium'', ''large'', ''original''}"
    by (simp add: dom_urls names size_names)
  have card4: "card (dom imageUrls) = 4"
    unfolding dom4 by simp
  have b2_same: "b2 s' = b2 s1" and base_same: "publicBaseUrl w s' c = publicBaseUrl w s1 c" for c
    by (simp_all add: frame)
  have url_of: "\<exists>client. b2 s' = Some client
                  \<and> url = publicBaseUrl w s' client @ ''/'' @ uploadFileName ?fid ?ext sizeName"
    if "imageUrls sizeName = Some url" for sizeName url
    using that in_outcomes urls by (simp add: b2_same base_same)
  obtain url0 where "imageUrls ''original'' = Some url0"
    using dom4 by blast
  from url_of [OF this] obtain client where client: "b2 s' = Some client" by blast
  have each: "\<forall>sizeName\<in>dom imageUrls.
                 imageUrls sizeName =
                   Some (publicBaseUrl w s' client @ ''/'' @ uploadFileName ?fid ?ext sizeName)"
  proof
    fix sizeName assume "sizeName \<in> dom imageUrls"
    then obtain url where u: "imageUrls sizeName = Some url" by blast
    from url_of [OF u] client u show "imageUrls sizeName =
                   Some (publicBaseUrl w s' client @ ''/'' @ uploadFileName ?fid ?ext sizeName)"
      by simp
  qed
  have shape: "sublist ?fid url \<and> suffix (uploadFileName ?fid ?ext sizeName) url"
    if "imageUrls sizeName = Some url" for sizeName url
  proof -
    from url_of [OF that] obtain c where
      u: "url = publicBaseUrl w s' c @ ''/'' @ uploadFileName ?fid ?ext sizeName"
      by blast
    have "suffix (uploadFileName ?fid ?ext sizeName) url"
      unfolding u by (simp add: suffix_def)
    moreover have "sublist ?fid (uploadFileName ?fid ?ext sizeName)"
      by (simp add: uploadFileName_def)
    ultimately show ?thesis
      by (meson sublist_order.order_trans suffix_imp_sublist)
  qed
  have rid: "res_id result = ?fid" and rurls: "res_urls result = imageUrls"
    and rname: "res_originalName result = originalName" and rmime: "res_mimeType result = mimeType"
    by (simp_all add: result)
  have stored: "uploadFileName ?fid ?ext sizeName =
      (if sizeName = ''original'' then ?fid @ ''.'' @ ?ext
       else ?fid @ ''_'' @ sizeName @ ''.'' @ ?ext)" for sizeName
    by (simp add: uploadFileName_def)
  have "\<exists>client. b2 s' = Some client
            \<and> (\<forall>sizeName\<in>dom imageUrls.
                 imageUrls sizeName =
                   Some (publicBaseUrl w s' client @ ''/'' @
                         (if sizeName = ''original'' then ?fid @ ''.'' @ ?ext
                          else ?fid @ ''_'' @ sizeName @ ''.'' @ ?ext)))"
    using client each unfolding stored by blast
  moreover have "\<forall>sizeName url. imageUrls sizeName = Some url
            \<longrightarrow> sublist ?fid url
                \<and> suffix (if sizeName = ''original'' then ?fid @ ''.'' @ ?ext
                           else ?fid @ ''_'' @ sizeName @ ''.'' @ ?ext) url"
    using shape unfolding stored by blast
  ultimately show ?thesis
    unfolding rid rurls rname rmime
    using dom4 card4 validateImage_ok [OF valid] by blast
qed



lemma test_uuid: "generateUUID (random test_world) = ''00000000-0000-4000-8000-000000000000''"
  by (simp add: generateUUID_def test_world_def hex_digit_def)

lemma test_extension: "getFileExtension test_world ''image/jpeg'' = ''jpeg''"
  by (simp add: getFileExtension_def test_world_def test_mime_extension_def js_or_def)

lemma test_base_url: "publicBaseUrl test_world s client = ''https://test-bucket.com''"
  by (simp add: publicBaseUrl_def test_world_def test_env_def js_or_def)

lemma test_uploadToB2:
  "b2 s \<noteq> None \<Longrightarrow>
     snd (uploadToB2 test_world s fileBuffer fname mimeType) = Inr (''https://test-bucket.com/'' @ fname)
     \<and> b2 (fst (uploadToB2 test_world s fileBuffer fname mimeType)) \<noteq> None"
proof -
  have slot: "b2_getUploadUrl test_world h bucket
                = Inr (''https://mock-upload-url.com'', ''mock-auth-token'')" for h bucket
    by (simp add: test_world_def)
  have stored: "b2_uploadFile test_world h request = Inr ()" for h request
    by (simp add: test_world_def)
  assume "b2 s \<noteq> None"
  then show ?thesis
    by (auto simp: uploadToB2_def uploadToB2_body_def Let_def test_base_url record_call_def
          slot stored)
qed

lemma test_upload_sizes:
  "b2 s \<noteq> None \<Longrightarrow>
     \<exists>s' outcomes. upload_sizes test_world s imageBuffer mimeType fid extension sizes = (s', Inr outcomes)
        \<and> (\<forall>outcome\<in>set outcomes. \<not> isl (snd outcome))"
proof (induction sizes arbitrary: s)
  case Nil
  then show ?case by simp
next
  case (Cons size1 rest)
  obtain sizeName config where size1: "size1 = (sizeName, config)" by (cases size1)
  have processed: "processImage test_world imageBuffer config mimeType = Inr imageBuffer"
    by (simp add: processImage_def test_world_def)
  let ?up = "uploadToB2 test_world s imageBuffer (uploadFileName fid extension sizeName) mimeType"
  from test_uploadToB2 [OF Cons.prems] obtain url where
    up: "snd ?up = Inr url" and client: "b2 (fst ?up) \<noteq> None"
    by blast
  from Cons.IH [OF client] obtain s' outcomes where
    "upload_sizes test_world (fst ?up) imageBuffer mimeType fid extension rest = (s', Inr outcomes)"
    and "\<forall>outcome\<in>set outcomes. \<not> isl (snd outcome)"
    by blast
  with up show ?case
    by (cases ?up) (simp add: size1 processed)
qed

lemma promise_all_succeeds:
  "\<forall>outcome\<in>set outcomes. \<not> isl (snd outcome) \<Longrightarrow> \<exists>imageUrls. promise_all outcomes = Inr imageUrls"
  by (induction outcomes rule: promise_all.induct) auto

lemma test_upload_succeeds:
  "\<exists>s' result. uploadImage test_world test_service [0xFF, 0xD8, 0xFF] ''cafe.jpg'' ''image/jpeg''
                  = (s', Inr result)"
proof -
  have v: "validateImage [0xFF, 0xD8, 0xFF] ''image/jpeg'' = Inr ()"
    by (simp add: validateImage_cases maxFileSize_def supportedFormats_def)
  have "b2 test_service \<noteq> None" by (simp add: test_service_def)
  from test_upload_sizes [OF this] obtain s' outcomes where
    loop: "upload_sizes test_world test_service [0xFF, 0xD8, 0xFF] ''image/jpeg''
             (generateUUID (random test_world)) (getFileExtension test_world ''image/jpeg'')
             imageSizes = (s', Inr outcomes)"
    and "\<forall>outcome\<in>set outcomes. \<not> isl (snd outcome)"
    by blast
  from promise_all_succeeds [OF this(2)] obtain imageUrls where
    "promise_all outcomes = Inr imageUrls" by blast
  with loop v show ?thesis
    by (simp add: uploadImage_def test_service_initialized uploadImage_body_def Let_def)
qed

theorem uploadImage_urls_witness:
  "\<exists>s' result.
      uploadImage test_world test_service [0xFF, 0xD8, 0xFF] ''cafe.jpg'' ''image/jpeg''
        = (s', Inr result)
      \<and> res_id result = ''00000000-0000-4000-8000-000000000000''
      \<and> dom (res_urls result) = {''thumbnail'', ''medium'', ''large'', ''original''}
      \<and> res_urls result ''thumbnail'' =
          Some ''https://test-bucket.com/00000000-0000-4000-8000-000000000000_thumbnail.jpeg''
      \<and> res_urls result ''medium'' =
          Some ''https://test-bucket.com/00000000-0000-4000-8000-000000000000_medium.jpeg''
      \<and> res_urls result ''large'' =
          Some ''https://test-bucket.com/00000000-0000-4000-8000-000000000000_large.jpeg''
      \<and> res_urls result ''original'' =
          Some ''https://test-bucket.com/00000000-0000-4000-8000-000000000000.jpeg''
      \<and> res_originalName result = ''cafe.jpg'' \<and> res_mimeType result = ''image/jpeg''"
proof -
  from test_upload_succeeds obtain s' result where
    eq: "uploadImage test_world test_service [0xFF, 0xD8, 0xFF] ''cafe.jpg'' ''image/jpeg''
           = (s', Inr result)"
    by blast
  note facts = uploadImage_urls [OF eq]
  from facts have rid: "res_id result = ''00000000-0000-4000-8000-000000000000''"
    by (simp only: test_uuid)
  from facts have keys: "dom (res_urls result) = {''thumbnail'', ''medium'', ''large'', ''original''}"
    by blast
  from facts have fields: "res_originalName result = ''cafe.jpg''" "res_mimeType result = ''image/jpeg''"
    by blast+
  from facts obtain client where
    each: "\<forall>sizeName\<in>dom (res_urls result).
             res_urls result sizeName =
               Some (publicBaseUrl test_world s' client @ ''/'' @
                     (if sizeName = ''original''
                      then res_id result @ ''.'' @ getFileExtension test_world ''image/jpeg''
                      else res_id result @ ''_'' @ sizeName @ ''.''
                             @ getFileExtension test_world ''image/jpeg''))"
    by blast
  have url: "res_urls result sizeName =
               Some (''https://test-bucket.com'' @ ''/'' @
                     (if sizeName = ''original''
                      then ''00000000-0000-4000-8000-000000000000'' @ ''.'' @ ''jpeg''
                      else ''00000000-0000-4000-8000-000000000000'' @ ''_'' @ sizeName @ ''.''
                             @ ''jpeg''))"
    if "sizeName \<in> dom (res_urls result)" for sizeName
    using each [THEN bspec, OF that] unfolding rid test_extension test_base_url .
  have "res_urls result ''thumbnail'' =
          Some ''https://test-bucket.com/00000000-0000-4000-8000-000000000000_thumbnail.jpeg''"
    using url [of "''thumbnail''"] by (simp add: keys)
  moreover have "res_urls result ''medium'' =
          Some ''https://test-bucket.com/00000000-0000-4000-8000-000000000000_medium.jpeg''"
    using url [of "''medium''"] by (simp add: keys)
  moreover have "res_urls result ''large'' =
          Some ''https://test-bucket.com/00000000-0000-4000-8000-000000000000_large.jpeg''"
    using url [of "''large''"] by (simp add: keys)
  moreover have "res_urls result ''original'' =
          Some ''https://test-bucket.com/00000000-0000-4000-8000-000000000000.jpeg''"
    using url [of "''original''"] by (simp add: keys)
  ultimately show ?thesis
    using eq rid keys fields by blast
qed

end
